theory Spec2Isabelle
  imports Main
begin

section \<open>Query parameters (package api)\<close>

text \<open>
  Go's \<open>url.Values\<close> is a \<open>map[string][]string\<close>; \<open>Set\<close> replaces whatever is stored
  under the key by the one-element slice holding the value.
\<close>

type_synonym Values = "string \<rightharpoonup> string list"

definition Values_Set :: "Values \<Rightarrow> string \<Rightarrow> string \<Rightarrow> Values" where
  "Values_Set q k v = q(k \<mapsto> [v])"

text \<open>The statement \<open>if c { q.Set(k, v) }\<close>, which is all that the query builders do.\<close>

definition set_if :: "bool \<Rightarrow> string \<Rightarrow> string \<Rightarrow> Values \<Rightarrow> Values" where
  "set_if c k v q = (if c then Values_Set q k v else q)"

text \<open>\<open>fmt.Sprintf("%d", n)\<close>: the decimal digits of \<open>n\<close>, with a minus sign below zero.\<close>

fun decimal :: "nat \<Rightarrow> string" where
  "decimal n = (if n < 10 then [''0123456789'' ! n]
                else decimal (n div 10) @ [''0123456789'' ! (n mod 10)])"

definition Sprintf_d :: "int \<Rightarrow> string" where
  "Sprintf_d n = (if n < 0 then CHR ''-'' # decimal (nat (- n)) else decimal (nat n))"

record ListOptions =
  Search :: string
  Markers :: string
  Keywords :: string
  Types :: string
  Categories :: string
  WFStatus :: string
  Published :: string
  Deleted :: bool
  Owner :: string
  UserOrg :: string
  TRCID :: string
  ExternalID :: string
  Language :: string
  UpdatedSince :: string
  Sort :: string
  Asc :: bool
  Size :: int
  Page :: int

record EventListOptions = ListOptions +
  DateFrom :: string
  DateTo :: string
  LocationID :: string
  City :: string
  GeoLat :: string
  GeoLon :: string
  GeoDistance :: string

record ExportOptions =
  PropertyIDs :: string
  Format :: string

text \<open>
  \<open>buildListQuery\<close> runs its eighteen conditional \<open>Set\<close> statements from \<open>search\<close> down
  to \<open>page\<close>; the innermost application below is the first statement.
\<close>

definition buildListQuery :: "'a ListOptions_scheme \<Rightarrow> Values" where
  "buildListQuery opts =
    (set_if (0 < Page opts) ''page'' (Sprintf_d (Page opts))
    (set_if (0 < Size opts) ''size'' (Sprintf_d (Size opts))
    (set_if (Asc opts) ''sortorder'' ''asc''
    (set_if (Sort opts \<noteq> '''') ''sort'' (Sort opts)
    (set_if (UpdatedSince opts \<noteq> '''') ''lastupdated'' (UpdatedSince opts)
    (set_if (Language opts \<noteq> '''') ''lang'' (Language opts)
    (set_if (ExternalID opts \<noteq> '''') ''externalid'' (ExternalID opts)
    (set_if (TRCID opts \<noteq> '''') ''trcid'' (TRCID opts)
    (set_if (UserOrg opts \<noteq> '''') ''userorganisation'' (UserOrg opts)
    (set_if (Owner opts \<noteq> '''') ''owner'' (Owner opts)
    (set_if (Deleted opts) ''deleted'' ''true''
    (set_if (Published opts \<noteq> '''') ''published'' (Published opts)
    (set_if (WFStatus opts \<noteq> '''') ''wfstatus'' (WFStatus opts)
    (set_if (Categories opts \<noteq> '''') ''categories'' (Categories opts)
    (set_if (Types opts \<noteq> '''') ''types'' (Types opts)
    (set_if (Keywords opts \<noteq> '''') ''keywords'' (Keywords opts)
    (set_if (Markers opts \<noteq> '''') ''markers'' (Markers opts)
    (set_if (Search opts \<noteq> '''') ''search'' (Search opts)
       Map.empty))))))))))))))))))"

text \<open>
  The list and export methods of \<open>Client\<close> build a query, append its encoding to the
  path and hand the endpoint to \<open>doRequest\<close>. The model stops at the request: the method,
  the path and the query values before they are encoded.
\<close>

record request =
  req_method :: string
  req_path :: string
  req_query :: Values

text \<open>The six event filters, set in the same order by \<open>ListEvents\<close> and \<open>ExportEvents\<close>.\<close>

definition eventFilters :: "'a EventListOptions_scheme \<Rightarrow> Values \<Rightarrow> Values" where
  "eventFilters opts q =
    (set_if (GeoDistance opts \<noteq> '''') ''geodistance'' (GeoDistance opts)
    (set_if (GeoLat opts \<noteq> '''' \<and> GeoLon opts \<noteq> '''') ''geo'' (GeoLat opts @ '','' @ GeoLon opts)
    (set_if (City opts \<noteq> '''') ''city'' (City opts)
    (set_if (LocationID opts \<noteq> '''') ''locationId'' (LocationID opts)
    (set_if (DateTo opts \<noteq> '''') ''eventDateRangeEnd'' (DateTo opts)
    (set_if (DateFrom opts \<noteq> '''') ''eventDateRangeStart'' (DateFrom opts) q))))))"

definition ListEvents :: "'a EventListOptions_scheme \<Rightarrow> request" where
  "ListEvents opts =
     \<lparr>req_method = ''GET'', req_path = ''/events'',
      req_query = eventFilters opts (buildListQuery opts)\<rparr>"

definition ExportEvents :: "'a EventListOptions_scheme \<Rightarrow> 'b ExportOptions_scheme \<Rightarrow> request" where
  "ExportEvents opts exportOpts =
     (let q = buildListQuery opts;
          format = (if Format exportOpts = '''' then ''excel'' else Format exportOpts);
          q = Values_Set q ''format'' format;
          q = set_if (PropertyIDs exportOpts \<noteq> '''') ''export_propertyids'' (PropertyIDs exportOpts) q
      in \<lparr>req_method = ''GET'', req_path = ''/events'', req_query = eventFilters opts q\<rparr>)"

definition ExportLocations :: "'a ListOptions_scheme \<Rightarrow> 'b ExportOptions_scheme \<Rightarrow> request" where
  "ExportLocations opts exportOpts =
     (let q = buildListQuery opts;
          q = Values_Set q ''format'' ''excel'';
          q = set_if (PropertyIDs exportOpts \<noteq> '''') ''export_propertyids'' (PropertyIDs exportOpts) q
      in \<lparr>req_method = ''GET'', req_path = ''/locations'', req_query = q\<rparr>)"

definition ExportVenues :: "'a ListOptions_scheme \<Rightarrow> 'b ExportOptions_scheme \<Rightarrow> request" where
  "ExportVenues opts exportOpts =
     (let q = buildListQuery opts;
          q = Values_Set q ''format'' ''excel'';
          q = set_if (PropertyIDs exportOpts \<noteq> '''') ''export_properyids'' (PropertyIDs exportOpts) q
      in \<lparr>req_method = ''GET'', req_path = ''/venues'', req_query = q\<rparr>)"

definition ExportRoutes :: "'a ListOptions_scheme \<Rightarrow> request" where
  "ExportRoutes opts =
     \<lparr>req_method = ''GET'', req_path = ''/routes'',
      req_query = Values_Set (buildListQuery opts) ''format'' ''excel''\<rparr>"

definition ExportEventGroups :: "'a ListOptions_scheme \<Rightarrow> request" where
  "ExportEventGroups opts =
     \<lparr>req_method = ''GET'', req_path = ''/eventgroups'',
      req_query = Values_Set (buildListQuery opts) ''format'' ''excel''\<rparr>"

section \<open>Response shapes (package api)\<close>

subsection \<open>Localized titles\<close>

record TRCItemDetail =
  Lang :: string
  Title :: string
  ShortDescription :: string
  LongDescription :: string

text \<open>
  Of the fields of \<open>Resource\<close>, the record keeps the identifier and the one field that
  \<open>GetTitle\<close> reads.
\<close>

record Resource =
  ID :: string
  TRCItemDetails :: "TRCItemDetail list"

text \<open>The inner loop of \<open>GetTitle\<close>: the first entry in the language with a title.\<close>

fun titleIn :: "string \<Rightarrow> TRCItemDetail list \<Rightarrow> string option" where
  "titleIn lang [] = None"
| "titleIn lang (d # ds) =
     (if Lang d = lang \<and> Title d \<noteq> '''' then Some (Title d) else titleIn lang ds)"

text \<open>The outer loop, over the preferred languages.\<close>

fun titleInLangs :: "string list \<Rightarrow> TRCItemDetail list \<Rightarrow> string option" where
  "titleInLangs [] ds = None"
| "titleInLangs (lang # langs) ds =
     (case titleIn lang ds of Some t \<Rightarrow> Some t | None \<Rightarrow> titleInLangs langs ds)"

definition GetTitle :: "'a Resource_scheme \<Rightarrow> string" where
  "GetTitle r =
     (if length (TRCItemDetails r) = 0 then ''-''
      else case titleInLangs [''nl'', ''en'', ''de''] (TRCItemDetails r) of
             Some t \<Rightarrow> t
           | None \<Rightarrow> if Title (TRCItemDetails r ! 0) \<noteq> '''' then Title (TRCItemDetails r ! 0)
                     else ''-'')"

text \<open>
  The resolution rule as the specification words it: the preferred languages in the order
  nl, en, de, the first entry with content winning; else the first entry of the list; else
  the placeholder.
\<close>

definition firstWithTitle :: "string \<Rightarrow> TRCItemDetail list \<Rightarrow> TRCItemDetail option" where
  "firstWithTitle lang ds = List.find (\<lambda>d. Lang d = lang \<and> Title d \<noteq> '''') ds"

definition title_spec :: "TRCItemDetail list \<Rightarrow> string" where
  "title_spec ds =
     (case firstWithTitle ''nl'' ds of Some d \<Rightarrow> Title d | None \<Rightarrow>
      case firstWithTitle ''en'' ds of Some d \<Rightarrow> Title d | None \<Rightarrow>
      case firstWithTitle ''de'' ds of Some d \<Rightarrow> Title d | None \<Rightarrow>
      case ds of [] \<Rightarrow> ''-'' | d # _ \<Rightarrow> if Title d = '''' then ''-'' else Title d)"

subsection \<open>Markers of flexible shape\<close>

text \<open>
  \<open>UnmarshalJSON\<close> receives the bytes of one JSON value from the decoder; the model takes
  the value they denote. \<open>json.Unmarshal\<close> into a \<open>[]string\<close> accepts \<open>null\<close> (the slice
  stays nil) and an array whose elements are strings or \<open>null\<close> (a \<open>null\<close> leaves the
  element at its zero value); into a \<open>string\<close> it accepts a string and \<open>null\<close>. Every
  other shape is an \<open>UnmarshalTypeError\<close>.
\<close>

datatype json =
  JNull | JBool bool | JNumber string | JString string
  | JArray "json list" | JObject "(string \<times> json) list"

datatype json_error = UnmarshalTypeError

fun unmarshal_string :: "json \<Rightarrow> json_error + string" where
  "unmarshal_string (JString s) = Inr s"
| "unmarshal_string JNull = Inr ''''"
| "unmarshal_string _ = Inl UnmarshalTypeError"

fun unmarshal_elems :: "json list \<Rightarrow> json_error + string list" where
  "unmarshal_elems [] = Inr []"
| "unmarshal_elems (v # vs) =
     (case (unmarshal_string v, unmarshal_elems vs) of
        (Inr s, Inr ss) \<Rightarrow> Inr (s # ss)
      | _ \<Rightarrow> Inl UnmarshalTypeError)"

fun unmarshal_strings :: "json \<Rightarrow> json_error + string list" where
  "unmarshal_strings JNull = Inr []"
| "unmarshal_strings (JArray vs) = unmarshal_elems vs"
| "unmarshal_strings _ = Inl UnmarshalTypeError"

text \<open>\<open>strings.Split(s, sep)\<close> for a separator of one byte, as every call here has it.\<close>

fun Split :: "string \<Rightarrow> char \<Rightarrow> string list" where
  "Split [] sep = [[]]"
| "Split (c # cs) sep =
     (if c = sep then [] # Split cs sep
      else case Split cs sep of [] \<Rightarrow> [[c]] | p # ps \<Rightarrow> (c # p) # ps)"

text \<open>
  \<open>FlexStringSlice.UnmarshalJSON\<close>: the new value of the receiver, and the error
  returned, which is nil on every path. A nil slice and an empty one are both \<open>[]\<close>.
\<close>

definition UnmarshalJSON :: "json \<Rightarrow> string list \<times> json_error option" where
  "UnmarshalJSON data =
     (case unmarshal_strings data of
        Inr arr \<Rightarrow> (arr, None)
      | Inl _ \<Rightarrow>
         (case unmarshal_string data of
            Inr s \<Rightarrow> if s = '''' then ([], None) else (Split s CHR '','', None)
          | Inl _ \<Rightarrow> ([], None)))"

section \<open>Calendar time (Go's package time)\<close>

text \<open>
  The parser of time expressions is a few lines around \<open>time.Now\<close>, \<open>Time.AddDate\<close>,
  \<open>time.Parse\<close> and \<open>Time.Format\<close> of the standard library. They are modelled after
  their documented behaviour on the proleptic Gregorian calendar: \<open>Date\<close> accepts values
  outside their usual ranges and normalises them, and \<open>AddDate\<close> normalises its result in
  the same way.

  A location is its lookup: for a Unix time, the offset from UTC in force then, and the
  bounds \<open>start \<le> t < end\<close> of the period in which it is in force. A \<open>Time\<close> is an instant,
  in whole seconds since 1970-01-01 00:00:00 UTC, and the location in which it is read.
  The fraction of a second is carried along unchanged by every operation used and never
  printed, and is left out.

  The library holds the seconds of a \<open>Time\<close> in 64 bits and computes in 64-bit integers,
  which wrap around some 292 thousand million years from the present. The model gives
  the result of \<open>Date\<close> where every argument is at most \<open>2 ^ 32\<close> in absolute value, so
  that no 64-bit value can overflow whatever the order of the computation. Beyond that
  window the result is whatever the library returns: the first argument of \<open>Date\<close>, and
  of everything that calls it, is the library's own function there. The times read are
  those of the system clock and the results of \<open>Date\<close>.
\<close>

type_synonym Location = "int \<Rightarrow> int \<times> int \<times> int"

record Time =
  unixSec :: int
  location :: Location

type_synonym DateFn = "int \<Rightarrow> int \<Rightarrow> int \<Rightarrow> int \<Rightarrow> int \<Rightarrow> int \<Rightarrow> Location \<Rightarrow> Time"

text \<open>\<open>time.UTC\<close> and \<open>time.FixedZone\<close>: one offset, in force from alpha to omega.\<close>

definition UTC :: Location where
  "UTC = (\<lambda>unix. (0, - (2 ^ 63), 2 ^ 63 - 1))"

definition FixedZone :: "int \<Rightarrow> Location" where
  "FixedZone offset = (\<lambda>unix. (offset, - (2 ^ 63), 2 ^ 63 - 1))"

text \<open>The seconds from 0001-01-01 00:00:00 UTC to the Unix epoch.\<close>

definition unixToInternal :: int where
  "unixToInternal = 62135596800"

text \<open>
  The reading of the wall clock in the location, in seconds since 0001-01-01 00:00:00
  (the library counts it from an earlier epoch, which makes no difference to the date).
\<close>

definition absSec :: "Time \<Rightarrow> int" where
  "absSec t = unixSec t + fst (location t (unixSec t)) + unixToInternal"

definition isLeap :: "int \<Rightarrow> bool" where
  "isLeap year = (year mod 4 = 0 \<and> (year mod 100 \<noteq> 0 \<or> year mod 400 = 0))"

text \<open>\<open>daysBefore[m]\<close> counts the days of a non-leap year before month \<open>m + 1\<close>.\<close>

definition daysBefore :: "int list" where
  "daysBefore = [0, 31, 59, 90, 120, 151, 181, 212, 243, 273, 304, 334, 365]"

definition daysIn :: "int \<Rightarrow> int \<Rightarrow> int" where
  "daysIn m year = (if m = 2 \<and> isLeap year then 29
                    else daysBefore ! nat m - daysBefore ! nat (m - 1))"

text \<open>
  The days from 0001-01-01 to the first of January of the year, counted in cycles of
  400, 100, 4 and 1 years.
\<close>

definition daysSinceEpoch :: "int \<Rightarrow> int" where
  "daysSinceEpoch year =
     (let y = year - 1;
          n400 = y div 400; y1 = y - 400 * n400;
          n100 = y1 div 100; y2 = y1 - 100 * n100;
          n4 = y2 div 4; y3 = y2 - 4 * n4
      in 146097 * n400 + 36524 * n100 + 1461 * n4 + 365 * y3)"

text \<open>
  The year of a day number and the day within the year, from zero: the cycles are cut
  off in turn, and a quotient of 4 at the 100-year and 1-year steps (the last day of a
  cycle) is lowered to 3.
\<close>

definition absDate :: "int \<Rightarrow> int \<times> int" where
  "absDate d =
     (let n400 = d div 146097; d1 = d - 146097 * n400;
          n100 = d1 div 36524; n100' = n100 - n100 div 4; d2 = d1 - 36524 * n100';
          n4 = d2 div 1461; d3 = d2 - 1461 * n4;
          n1 = d3 div 365; n1' = n1 - n1 div 4; yday = d3 - 365 * n1'
      in (400 * n400 + 100 * n100' + 4 * n4 + n1' + 1, yday))"

text \<open>Month and day of the month from the day of the year, with the month estimated as \<open>day / 31\<close>.\<close>

definition monthDay :: "int \<Rightarrow> int \<Rightarrow> int \<times> int" where
  "monthDay year yday =
     (if isLeap year \<and> yday = 31 + 29 - 1 then (2, 29)
      else let day = (if isLeap year \<and> yday > 31 + 29 - 1 then yday - 1 else yday);
               month = day div 31;
               end = daysBefore ! nat (month + 1)
           in if day \<ge> end then (month + 2, day - end + 1)
              else (month + 1, day - daysBefore ! nat month + 1))"

definition civil :: "int \<Rightarrow> int \<times> int \<times> int" where
  "civil d = (case absDate d of (year, yday) \<Rightarrow>
                (case monthDay year yday of (month, day) \<Rightarrow> (year, month, day)))"

text \<open>\<open>norm(hi, lo, base)\<close>: the excess of \<open>lo\<close> is carried into \<open>hi\<close>, rounding down.\<close>

definition norm :: "int \<Rightarrow> int \<Rightarrow> int \<Rightarrow> int \<times> int" where
  "norm hi lo base = (hi + lo div base, lo mod base)"

text \<open>
  The day number of a year, month and day that need not be in range: the month is
  normalised into the year, the day is just added.
\<close>

definition dayNumber :: "int \<Rightarrow> int \<Rightarrow> int \<Rightarrow> int" where
  "dayNumber year month day =
     (case norm year (month - 1) 12 of (year', m) \<Rightarrow>
        daysSinceEpoch year' + daysBefore ! nat m
         + (if isLeap year' \<and> m + 1 \<ge> 3 then 1 else 0) + (day - 1))"

text \<open>
  The offset that \<open>Date\<close> subtracts from a wall-clock reading taken as if it were UTC: the
  offset in force at that reading, unless the instant so found lies outside the period of
  that offset; then the offset in force at that instant.
\<close>

definition zoneOffset :: "Location \<Rightarrow> int \<Rightarrow> int" where
  "zoneOffset loc unix =
     (case loc unix of (offset, start, end) \<Rightarrow>
        if offset \<noteq> 0 then
          (let utc = unix - offset
           in if utc < start \<or> utc \<ge> end then fst (loc utc) else offset)
        else 0)"

definition inWindow :: "int \<Rightarrow> bool" where
  "inWindow x = (\<bar>x\<bar> \<le> 2 ^ 32)"

definition Date :: "DateFn \<Rightarrow> int \<Rightarrow> int \<Rightarrow> int \<Rightarrow> int \<Rightarrow> int \<Rightarrow> int \<Rightarrow> Location \<Rightarrow> Time" where
  "Date beyond year month day hour minute sec loc =
     (if list_all inWindow [year, month, day, hour, minute, sec] then
        (case norm minute sec 60 of (minute, sec) \<Rightarrow>
         case norm hour minute 60 of (hour, minute) \<Rightarrow>
         case norm day hour 24 of (day, hour) \<Rightarrow>
           let unix = dayNumber year month day * 86400 + hour * 3600 + minute * 60 + sec
                        - unixToInternal
           in \<lparr>unixSec = unix - zoneOffset loc unix, location = loc\<rparr>)
      else beyond year month day hour minute sec loc)"

text \<open>\<open>t.Date()\<close> and \<open>t.Clock()\<close>.\<close>

definition Time_Date :: "Time \<Rightarrow> int \<times> int \<times> int" where
  "Time_Date t = civil (absSec t div 86400)"

definition Clock :: "Time \<Rightarrow> int \<times> int \<times> int" where
  "Clock t = (let s = absSec t mod 86400 in (s div 3600, s mod 3600 div 60, s mod 60))"

text \<open>The value of an arithmetic result in a 64-bit \<open>int\<close>, which wraps around.\<close>

definition int64 :: "int \<Rightarrow> int" where
  "int64 x = (x + 2 ^ 63) mod 2 ^ 64 - 2 ^ 63"

definition AddDate :: "DateFn \<Rightarrow> Time \<Rightarrow> int \<Rightarrow> int \<Rightarrow> int \<Rightarrow> Time" where
  "AddDate beyond t years months days =
     (case Time_Date t of (year, month, day) \<Rightarrow>
      case Clock t of (hour, minute, sec) \<Rightarrow>
        Date beyond (int64 (year + years)) (int64 (month + months)) (int64 (day + days))
          hour minute sec (location t))"

text \<open>A date of the calendar: the month exists and the day exists in it.\<close>

definition valid_date :: "int \<times> int \<times> int \<Rightarrow> bool" where
  "valid_date ymd = (case ymd of (year, month, day) \<Rightarrow>
     1 \<le> month \<and> month \<le> 12 \<and> 1 \<le> day \<and> day \<le> daysIn month year)"

section \<open>Time expressions (package cmd)\<close>

subsection \<open>Digits and integers\<close>

definition isDigit :: "char \<Rightarrow> bool" where
  "isDigit c = (48 \<le> (of_char c :: nat) \<and> (of_char c :: nat) \<le> 57)"

definition digitVal :: "char \<Rightarrow> int" where
  "digitVal c = of_char c - 48"

definition digitsVal :: "string \<Rightarrow> int" where
  "digitsVal s = foldl (\<lambda>n c. n * 10 + digitVal c) 0 s"

text \<open>
  \<open>strconv.Atoi\<close> where \<open>int\<close> has 64 bits: an optional sign and decimal digits. Out of
  range, it returns the nearest bound together with the range error.
\<close>

datatype NumError = ErrSyntax | ErrRange

definition Atoi :: "string \<Rightarrow> int \<times> NumError option" where
  "Atoi s =
     (let neg = (s \<noteq> [] \<and> hd s = CHR ''-'');
          body = (if s \<noteq> [] \<and> (hd s = CHR ''-'' \<or> hd s = CHR ''+'') then tl s else s)
      in if body = [] \<or> \<not> list_all isDigit body then (0, Some ErrSyntax)
         else let un = digitsVal body
              in if \<not> neg \<and> un \<ge> 2 ^ 63 then (2 ^ 63 - 1, Some ErrRange)
                 else if neg \<and> un > 2 ^ 63 then (- (2 ^ 63), Some ErrRange)
                 else (if neg then - un else un, None))"

subsection \<open>The two grammars\<close>

text \<open>
  \<open>relativeTimeRe.FindStringSubmatch\<close> for the pattern \<open>^(\d+)(d|w|mo|y)$\<close>: the two
  groups of the match, if the whole string matches. \<open>\d\<close> is an ASCII digit, and no unit
  begins with one, so the count is the longest prefix of digits.
\<close>

definition FindStringSubmatch :: "string \<Rightarrow> (string \<times> string) option" where
  "FindStringSubmatch s =
     (let count = takeWhile isDigit s; unit = dropWhile isDigit s
      in if count \<noteq> [] \<and> unit \<in> set [''d'', ''w'', ''mo'', ''y''] then Some (count, unit)
         else None)"

text \<open>The language of the pattern, as the specification gives the grammar.\<close>

definition relative_grammar :: "string \<Rightarrow> bool" where
  "relative_grammar s =
     (\<exists>ds u. s = ds @ u \<and> ds \<noteq> [] \<and> list_all isDigit ds \<and> u \<in> {''d'', ''w'', ''mo'', ''y''})"

text \<open>
  \<open>time.Parse("2006-01-02", value)\<close>: four digits of year, a hyphen, two digits of month
  within 1 to 12, a hyphen, two digits of day, and nothing after them; the day must exist
  in the month. The result is midnight of the date in UTC.
\<close>

datatype ParseError = ParseError

definition getnum :: "string \<Rightarrow> (int \<times> string) option" where
  "getnum s = (case s of
       a # b # rest \<Rightarrow> if isDigit a \<and> isDigit b then Some (digitVal a * 10 + digitVal b, rest)
                       else None
     | _ \<Rightarrow> None)"

definition skip :: "string \<Rightarrow> string \<Rightarrow> string option" where
  "skip v prefix = (if take (length prefix) v = prefix then Some (drop (length prefix) v) else None)"

definition Parse :: "DateFn \<Rightarrow> string \<Rightarrow> ParseError + Time" where
  "Parse beyond v =
     (if length v < 4 \<or> \<not> isDigit (hd v) then Inl ParseError
      else let p = take 4 v; v = drop 4 v
       in if \<not> list_all isDigit p then Inl ParseError
          else let year = digitsVal p
           in case skip v ''-'' of None \<Rightarrow> Inl ParseError | Some v \<Rightarrow>
              case getnum v of None \<Rightarrow> Inl ParseError | Some (month, v) \<Rightarrow>
              if month \<le> 0 \<or> 12 < month then Inl ParseError
              else case skip v ''-'' of None \<Rightarrow> Inl ParseError | Some v \<Rightarrow>
                   case getnum v of None \<Rightarrow> Inl ParseError | Some (day, v) \<Rightarrow>
                   if v \<noteq> [] then Inl ParseError
                   else if day < 1 \<or> day > daysIn month year then Inl ParseError
                   else Inr (Date beyond year month day 0 0 0 UTC))"

text \<open>An absolute date, as the specification gives the second grammar: \<open>YYYY-MM-DD\<close>.\<close>

definition absolute_date :: "string \<Rightarrow> bool" where
  "absolute_date s =
     (\<exists>y1 y2 y3 y4 m1 m2 d1 d2.
        s = [y1, y2, y3, y4, CHR ''-'', m1, m2, CHR ''-'', d1, d2]
        \<and> list_all isDigit [y1, y2, y3, y4, m1, m2, d1, d2]
        \<and> valid_date (digitsVal [y1, y2, y3, y4], digitsVal [m1, m2], digitsVal [d1, d2]))"

subsection \<open>Formatting\<close>

text \<open>\<open>appendInt(b, x, width)\<close>: the decimal digits padded with zeros to the width.\<close>

definition appendInt :: "int \<Rightarrow> nat \<Rightarrow> string" where
  "appendInt x width =
     (let ds = decimal (nat \<bar>x\<bar>); padded = replicate (width - length ds) CHR ''0'' @ ds
      in if x < 0 then CHR ''-'' # padded else padded)"

text \<open>\<open>t.Format("2006-01-02")\<close>.\<close>

definition Format_date :: "Time \<Rightarrow> string" where
  "Format_date t = (case Time_Date t of (year, month, day) \<Rightarrow>
     appendInt year 4 @ ''-'' @ appendInt month 2 @ ''-'' @ appendInt day 2)"

text \<open>Go's integer division, which truncates towards zero.\<close>

definition quo :: "int \<Rightarrow> int \<Rightarrow> int" where
  "quo a b = (if a < 0 then - ((- a) div b) else a div b)"

text \<open>\<open>t.Format(time.RFC3339)\<close>.\<close>

definition Format_RFC3339 :: "Time \<Rightarrow> string" where
  "Format_RFC3339 t =
     (case Clock t of (hour, minute, sec) \<Rightarrow>
        Format_date t @ ''T'' @ appendInt hour 2 @ '':'' @ appendInt minute 2 @ '':''
          @ appendInt sec 2
          @ (let offset = fst (location t (unixSec t))
             in if offset = 0 then ''Z''
             else let zone = quo offset 60;
                      sign = (if zone < 0 then ''-'' else ''+'');
                      zone = (if zone < 0 then - zone else zone)
                  in sign @ appendInt (zone div 60) 2 @ '':'' @ appendInt (zone mod 60) 2))"

subsection \<open>The parser\<close>

text \<open>
  The errors of the commands. \<open>InvalidTimeExpression\<close> is the specification's
  DATE_FORMAT_ERROR, \<open>GeoDistanceRequiresGeo\<close> its GEO_FILTER_INVALID and
  \<open>UitkrantRequiresRange\<close> its EXPORT_FORMAT_REQUIRES_RANGE; \<open>Flag f e\<close> is \<open>e\<close> wrapped
  under the name of a flag by \<open>fmt.Errorf("f: %w", e)\<close>.
\<close>

datatype error =
  InvalidTimeExpression string
  | Flag string error
  | GeoFormat
  | GeoDistanceRequiresGeo
  | UitkrantRequiresRange

text \<open>The message of an error; the first argument is \<open>strconv.Quote\<close>, the verb \<open>%q\<close>.\<close>

fun Error :: "(string \<Rightarrow> string) \<Rightarrow> error \<Rightarrow> string" where
  "Error quote (InvalidTimeExpression s) =
     ''invalid time expression '' @ quote s @ '' (use e.g. 3d, 2w, 1mo, 1y, or 2026-01-15)''"
| "Error quote (Flag f e) = f @ '': '' @ Error quote e"
| "Error quote GeoFormat = ''--geo must be in format lat,lon (e.g. 52.37,4.89)''"
| "Error quote GeoDistanceRequiresGeo = ''--geo-distance requires --geo flag''"
| "Error quote UitkrantRequiresRange = ''format 'uitkrant' requires both --date-from and --date-to''"

text \<open>The absolute branch, which is also where the \<open>switch\<close> would fall through to.\<close>

definition parseAbsolute :: "DateFn \<Rightarrow> string \<Rightarrow> error + Time" where
  "parseAbsolute beyond s = (case Parse beyond s of Inr t \<Rightarrow> Inr t | Inl _ \<Rightarrow> Inl (InvalidTimeExpression s))"

text \<open>
  \<open>ParseRelativeTime\<close>; \<open>now\<close> is what \<open>time.Now()\<close> returns in the call. The error of
  \<open>Atoi\<close> is dropped, and \<open>-n\<close> and \<open>-n*7\<close> are computed in \<open>int\<close>.
\<close>

definition ParseRelativeTime :: "DateFn \<Rightarrow> Time \<Rightarrow> string \<Rightarrow> error + Time" where
  "ParseRelativeTime beyond now s =
     (case FindStringSubmatch s of
        Some (m1, m2) \<Rightarrow>
          (let n = fst (Atoi m1)
           in if m2 = ''d'' then Inr (AddDate beyond now 0 0 (int64 (- n)))
              else if m2 = ''w'' then Inr (AddDate beyond now 0 0 (int64 (int64 (- n) * 7)))
              else if m2 = ''mo'' then Inr (AddDate beyond now 0 (int64 (- n)) 0)
              else if m2 = ''y'' then Inr (AddDate beyond now (int64 (- n)) 0 0)
              else parseAbsolute beyond s)
      | None \<Rightarrow> parseAbsolute beyond s)"

definition ParseRelativeDate :: "DateFn \<Rightarrow> Time \<Rightarrow> string \<Rightarrow> error + string" where
  "ParseRelativeDate beyond now s =
     (case ParseRelativeTime beyond now s of Inl err \<Rightarrow> Inl err | Inr t \<Rightarrow> Inr (Format_date t))"

definition ParseRelativeISO :: "DateFn \<Rightarrow> Time \<Rightarrow> string \<Rightarrow> error + string" where
  "ParseRelativeISO beyond now s =
     (case ParseRelativeTime beyond now s of Inl err \<Rightarrow> Inl err | Inr t \<Rightarrow> Inr (Format_RFC3339 t))"

section \<open>The event commands (package cmd)\<close>

record EventsListCmd =
  l_Search :: string
  l_Markers :: string
  l_Keywords :: string
  l_Types :: string
  l_Categories :: string
  l_WFStatus :: string
  l_Published :: string
  l_Deleted :: bool
  l_Owner :: string
  l_UserOrg :: string
  l_TRCID :: string
  l_ExternalID :: string
  l_Language :: string
  l_UpdatedSince :: string
  l_Sort :: string
  l_Asc :: bool
  l_Size :: int
  l_Page :: int
  l_JSON :: bool
  l_DateFrom :: string
  l_DateTo :: string
  l_LocationID :: string
  l_City :: string
  l_Geo :: string
  l_GeoDistance :: string

record EventsExportCmd =
  x_Output :: string
  x_Format :: string
  x_PropertyIDs :: string
  x_Search :: string
  x_Markers :: string
  x_Keywords :: string
  x_Types :: string
  x_Categories :: string
  x_WFStatus :: string
  x_Published :: string
  x_Deleted :: bool
  x_Owner :: string
  x_UserOrg :: string
  x_TRCID :: string
  x_ExternalID :: string
  x_Language :: string
  x_UpdatedSince :: string
  x_Sort :: string
  x_Asc :: bool
  x_DateFrom :: string
  x_DateTo :: string
  x_LocationID :: string
  x_City :: string
  x_Geo :: string
  x_GeoDistance :: string

text \<open>\<open>strings.SplitN(s, sep, 2)\<close> for a separator of one byte: cut at its first occurrence.\<close>

fun SplitN2 :: "string \<Rightarrow> char \<Rightarrow> string list" where
  "SplitN2 [] sep = [[]]"
| "SplitN2 (c # cs) sep =
     (if c = sep then [[], cs]
      else case SplitN2 cs sep of [] \<Rightarrow> [[c]] | p # ps \<Rightarrow> (c # p) # ps)"

text \<open>
  Both \<open>Run\<close> methods fill the options by the same five blocks, in the same order. Each
  either returns its error from \<open>Run\<close> or passes the options on.
\<close>

definition andThen :: "error + 'a \<Rightarrow> ('a \<Rightarrow> error + 'b) \<Rightarrow> error + 'b" where
  "andThen r f = (case r of Inl err \<Rightarrow> Inl err | Inr v \<Rightarrow> f v)"

definition parseUpdatedSince ::
  "DateFn \<Rightarrow> Time \<Rightarrow> string \<Rightarrow> EventListOptions \<Rightarrow> error + EventListOptions" where
  "parseUpdatedSince beyond now v opts =
     (if v \<noteq> '''' then
        (case ParseRelativeISO beyond now v of
           Inl err \<Rightarrow> Inl (Flag ''--updated-since'' err)
         | Inr iso' \<Rightarrow> Inr (opts\<lparr>UpdatedSince := iso'\<rparr>))
      else Inr opts)"

definition parseDateFrom ::
  "DateFn \<Rightarrow> Time \<Rightarrow> string \<Rightarrow> EventListOptions \<Rightarrow> error + EventListOptions" where
  "parseDateFrom beyond now v opts =
     (if v \<noteq> '''' then
        (case ParseRelativeDate beyond now v of
           Inl err \<Rightarrow> Inl (Flag ''--date-from'' err)
         | Inr d \<Rightarrow> Inr (opts\<lparr>DateFrom := d\<rparr>))
      else Inr opts)"

definition parseDateTo ::
  "DateFn \<Rightarrow> Time \<Rightarrow> string \<Rightarrow> EventListOptions \<Rightarrow> error + EventListOptions" where
  "parseDateTo beyond now v opts =
     (if v \<noteq> '''' then
        (case ParseRelativeDate beyond now v of
           Inl err \<Rightarrow> Inl (Flag ''--date-to'' err)
         | Inr d \<Rightarrow> Inr (opts\<lparr>DateTo := d\<rparr>))
      else Inr opts)"

text \<open>The first argument is \<open>strings.TrimSpace\<close>.\<close>

definition parseGeo :: "(string \<Rightarrow> string) \<Rightarrow> string \<Rightarrow> EventListOptions \<Rightarrow> error + EventListOptions" where
  "parseGeo TrimSpace geo opts =
     (if geo \<noteq> '''' then
        (let parts = SplitN2 geo CHR '',''
         in if length parts \<noteq> 2 then Inl GeoFormat
            else Inr (opts\<lparr>GeoLat := TrimSpace (parts ! 0), GeoLon := TrimSpace (parts ! 1)\<rparr>))
      else Inr opts)"

definition parseGeoDistance :: "string \<Rightarrow> string \<Rightarrow> EventListOptions \<Rightarrow> error + EventListOptions" where
  "parseGeoDistance geo dist opts =
     (if dist \<noteq> '''' then
        (if geo = '''' then Inl GeoDistanceRequiresGeo else Inr (opts\<lparr>GeoDistance := dist\<rparr>))
      else Inr opts)"

text \<open>
  \<open>EventsListCmd.Run\<close> up to the call of the client: \<open>Inl\<close> is an error returned before
  the call, \<open>Inr\<close> the request that \<open>client.ListEvents\<close> then issues. The three times are
  what \<open>time.Now()\<close> returns to the parser for the flags \<open>--updated-since\<close>,
  \<open>--date-from\<close> and \<open>--date-to\<close>; \<open>beyond\<close> is the library's \<open>Date\<close> outside the window.
\<close>

definition EventsListCmd_Run ::
  "(string \<Rightarrow> string) \<Rightarrow> DateFn \<Rightarrow> Time \<Rightarrow> Time \<Rightarrow> Time \<Rightarrow> EventsListCmd \<Rightarrow> error + request" where
  "EventsListCmd_Run TrimSpace beyond now1 now2 now3 c =
     (let opts = \<lparr>Search = l_Search c, Markers = l_Markers c, Keywords = l_Keywords c,
                  Types = l_Types c, Categories = l_Categories c, WFStatus = l_WFStatus c,
                  Published = l_Published c, Deleted = l_Deleted c, Owner = l_Owner c,
                  UserOrg = l_UserOrg c, TRCID = l_TRCID c, ExternalID = l_ExternalID c,
                  Language = l_Language c, UpdatedSince = '''', Sort = l_Sort c, Asc = l_Asc c,
                  Size = l_Size c, Page = l_Page c,
                  DateFrom = '''', DateTo = '''', LocationID = l_LocationID c, City = l_City c,
                  GeoLat = '''', GeoLon = '''', GeoDistance = ''''\<rparr>
      in andThen (parseUpdatedSince beyond now1 (l_UpdatedSince c) opts) (\<lambda>opts.
         andThen (parseDateFrom beyond now2 (l_DateFrom c) opts) (\<lambda>opts.
         andThen (parseDateTo beyond now3 (l_DateTo c) opts) (\<lambda>opts.
         andThen (parseGeo TrimSpace (l_Geo c) opts) (\<lambda>opts.
         andThen (parseGeoDistance (l_Geo c) (l_GeoDistance c) opts) (\<lambda>opts.
         Inr (ListEvents opts)))))))"

text \<open>
  \<open>EventsExportCmd.Run\<close> likewise, up to the request of \<open>client.ExportEvents\<close>; the file
  is written only after the response has come.
\<close>

definition EventsExportCmd_Run ::
  "(string \<Rightarrow> string) \<Rightarrow> DateFn \<Rightarrow> Time \<Rightarrow> Time \<Rightarrow> Time \<Rightarrow> EventsExportCmd \<Rightarrow> error + request" where
  "EventsExportCmd_Run TrimSpace beyond now1 now2 now3 c =
     (if x_Format c = ''uitkrant'' \<and> (x_DateFrom c = '''' \<or> x_DateTo c = '''')
      then Inl UitkrantRequiresRange
      else
       let opts = \<lparr>Search = x_Search c, Markers = x_Markers c, Keywords = x_Keywords c,
                   Types = x_Types c, Categories = x_Categories c, WFStatus = x_WFStatus c,
                   Published = x_Published c, Deleted = x_Deleted c, Owner = x_Owner c,
                   UserOrg = x_UserOrg c, TRCID = x_TRCID c, ExternalID = x_ExternalID c,
                   Language = x_Language c, UpdatedSince = '''', Sort = x_Sort c, Asc = x_Asc c,
                   Size = 0, Page = 0,
                   DateFrom = '''', DateTo = '''', LocationID = x_LocationID c, City = x_City c,
                   GeoLat = '''', GeoLon = '''', GeoDistance = ''''\<rparr>;
           exportOpts = \<lparr>PropertyIDs = x_PropertyIDs c, Format = x_Format c\<rparr>
       in andThen (parseUpdatedSince beyond now1 (x_UpdatedSince c) opts) (\<lambda>opts.
          andThen (parseDateFrom beyond now2 (x_DateFrom c) opts) (\<lambda>opts.
          andThen (parseDateTo beyond now3 (x_DateTo c) opts) (\<lambda>opts.
          andThen (parseGeo TrimSpace (x_Geo c) opts) (\<lambda>opts.
          andThen (parseGeoDistance (x_Geo c) (x_GeoDistance c) opts) (\<lambda>opts.
          Inr (ExportEvents opts exportOpts)))))))"

text \<open>A flag that holds a time expression is accepted when it is not given or parses.\<close>

definition flagParses :: "DateFn \<Rightarrow> Time \<Rightarrow> string \<Rightarrow> bool" where
  "flagParses beyond now v =
     (v = '''' \<or> (case ParseRelativeTime beyond now v of Inl _ \<Rightarrow> False | Inr _ \<Rightarrow> True))"

text \<open>
  The error of the first of the three flags \<open>--updated-since\<close>, \<open>--date-from\<close> and
  \<open>--date-to\<close> that does not parse, if there is one.
\<close>

definition firstFlagError ::
  "DateFn \<Rightarrow> Time \<Rightarrow> string \<Rightarrow> Time \<Rightarrow> string \<Rightarrow> Time \<Rightarrow> string \<Rightarrow> error option" where
  "firstFlagError beyond now1 since now2 from now3 to =
     (if \<not> flagParses beyond now1 since
        then Some (Flag ''--updated-since'' (InvalidTimeExpression since))
      else if \<not> flagParses beyond now2 from
        then Some (Flag ''--date-from'' (InvalidTimeExpression from))
      else if \<not> flagParses beyond now3 to
        then Some (Flag ''--date-to'' (InvalidTimeExpression to))
      else None)"





text \<open>
  For concrete inputs: a stand-in for the library beyond the window, the Unix epoch in
  UTC, and noon of 2026-03-31 one hour east of UTC.
\<close>

definition zeroTime :: DateFn where
  "zeroTime year month day hour minute sec loc = \<lparr>unixSec = 0, location = loc\<rparr>"

definition epoch :: Time where
  "epoch = \<lparr>unixSec = 0, location = UTC\<rparr>"

definition march31 :: Time where
  "march31 = \<lparr>unixSec = 1774954800, location = FixedZone 3600\<rparr>"

text \<open>The zero values of the option and command structs, for concrete inputs.\<close>

definition noFilters :: ListOptions where
  "noFilters = \<lparr>Search = '''', Markers = '''', Keywords = '''', Types = '''', Categories = '''',
     WFStatus = '''', Published = '''', Deleted = False, Owner = '''', UserOrg = '''', TRCID = '''',
     ExternalID = '''', Language = '''', UpdatedSince = '''', Sort = '''', Asc = False,
     Size = 0, Page = 0\<rparr>"

definition noEventFilters :: EventListOptions where
  "noEventFilters = ListOptions.extend noFilters
     (EventListOptions.fields '''' '''' '''' '''' '''' '''' '''')"

definition noListFlags :: EventsListCmd where
  "noListFlags = \<lparr>l_Search = '''', l_Markers = '''', l_Keywords = '''', l_Types = '''',
     l_Categories = '''', l_WFStatus = '''', l_Published = '''', l_Deleted = False,
     l_Owner = '''', l_UserOrg = '''', l_TRCID = '''', l_ExternalID = '''', l_Language = '''',
     l_UpdatedSince = '''', l_Sort = '''', l_Asc = False, l_Size = 0, l_Page = 0, l_JSON = False,
     l_DateFrom = '''', l_DateTo = '''', l_LocationID = '''', l_City = '''', l_Geo = '''',
     l_GeoDistance = ''''\<rparr>"

definition noExportFlags :: EventsExportCmd where
  "noExportFlags = \<lparr>x_Output = '''', x_Format = '''', x_PropertyIDs = '''', x_Search = '''',
     x_Markers = '''', x_Keywords = '''', x_Types = '''', x_Categories = '''', x_WFStatus = '''',
     x_Published = '''', x_Deleted = False, x_Owner = '''', x_UserOrg = '''', x_TRCID = '''',
     x_ExternalID = '''', x_Language = '''', x_UpdatedSince = '''', x_Sort = '''', x_Asc = False,
     x_DateFrom = '''', x_DateTo = '''', x_LocationID = '''', x_City = '''', x_Geo = '''',
     x_GeoDistance = ''''\<rparr>"

section \<open>Properties of the query builders\<close>

lemma set_if_apply: "set_if c k v q k' = (if c \<and> k' = k then Some [v] else q k')"
  by (simp add: set_if_def Values_Set_def)

lemma Values_Set_apply: "Values_Set q k v k' = (if k' = k then Some [v] else q k')"
  by (simp add: Values_Set_def)

lemma decimal_not_Nil: "decimal n \<noteq> []"
  by (subst decimal.simps) simp

lemma Sprintf_d_not_Nil: "Sprintf_d n \<noteq> []"
  by (simp add: Sprintf_d_def decimal_not_Nil del: decimal.simps)

text \<open>What the query holds under a key: the statements of \<open>buildListQuery\<close>, last first.\<close>

lemma buildListQuery_lookup:
  "buildListQuery opts k =
    (if 0 < Page opts \<and> k = ''page'' then Some [Sprintf_d (Page opts)]
     else if 0 < Size opts \<and> k = ''size'' then Some [Sprintf_d (Size opts)]
     else if Asc opts \<and> k = ''sortorder'' then Some [''asc'']
     else if Sort opts \<noteq> [] \<and> k = ''sort'' then Some [Sort opts]
     else if UpdatedSince opts \<noteq> [] \<and> k = ''lastupdated'' then Some [UpdatedSince opts]
     else if Language opts \<noteq> [] \<and> k = ''lang'' then Some [Language opts]
     else if ExternalID opts \<noteq> [] \<and> k = ''externalid'' then Some [ExternalID opts]
     else if TRCID opts \<noteq> [] \<and> k = ''trcid'' then Some [TRCID opts]
     else if UserOrg opts \<noteq> [] \<and> k = ''userorganisation'' then Some [UserOrg opts]
     else if Owner opts \<noteq> [] \<and> k = ''owner'' then Some [Owner opts]
     else if Deleted opts \<and> k = ''deleted'' then Some [''true'']
     else if Published opts \<noteq> [] \<and> k = ''published'' then Some [Published opts]
     else if WFStatus opts \<noteq> [] \<and> k = ''wfstatus'' then Some [WFStatus opts]
     else if Categories opts \<noteq> [] \<and> k = ''categories'' then Some [Categories opts]
     else if Types opts \<noteq> [] \<and> k = ''types'' then Some [Types opts]
     else if Keywords opts \<noteq> [] \<and> k = ''keywords'' then Some [Keywords opts]
     else if Markers opts \<noteq> [] \<and> k = ''markers'' then Some [Markers opts]
     else if Search opts \<noteq> [] \<and> k = ''search'' then Some [Search opts]
     else None)"
  unfolding buildListQuery_def set_if_apply by (rule refl)

lemma eventFilters_lookup:
  "eventFilters opts q k =
    (if GeoDistance opts \<noteq> [] \<and> k = ''geodistance'' then Some [GeoDistance opts]
     else if (GeoLat opts \<noteq> [] \<and> GeoLon opts \<noteq> []) \<and> k = ''geo''
       then Some [GeoLat opts @ '','' @ GeoLon opts]
     else if City opts \<noteq> [] \<and> k = ''city'' then Some [City opts]
     else if LocationID opts \<noteq> [] \<and> k = ''locationId'' then Some [LocationID opts]
     else if DateTo opts \<noteq> [] \<and> k = ''eventDateRangeEnd'' then Some [DateTo opts]
     else if DateFrom opts \<noteq> [] \<and> k = ''eventDateRangeStart'' then Some [DateFrom opts]
     else q k)"
  unfolding eventFilters_def set_if_apply by (rule refl)

lemma buildListQuery_deleted:
  "buildListQuery opts ''deleted'' = (if Deleted opts then Some [''true''] else None)"
  unfolding buildListQuery_lookup by simp

lemma buildListQuery_sortorder:
  "buildListQuery opts ''sortorder'' = (if Asc opts then Some [''asc''] else None)"
  unfolding buildListQuery_lookup by simp

text \<open>
  C3 (as the code has it). The flag \<open>Deleted\<close> contributes the parameter \<open>deleted\<close> with
  the value \<open>true\<close> when it is set and no parameter when it is not; the flag \<open>Asc\<close>
  contributes the parameter \<open>sortorder\<close> with the value \<open>asc\<close>, not \<open>true\<close>, when it is
  set and no parameter when it is not. Neither is ever sent as \<open>false\<close>.
\<close>

theorem boolean_fields_contribution:
  "buildListQuery opts ''deleted'' = (if Deleted opts then Some [''true''] else None)
   \<and> buildListQuery opts ''sortorder'' = (if Asc opts then Some [''asc''] else None)
   \<and> buildListQuery opts ''deleted'' \<noteq> Some [''false'']
   \<and> buildListQuery opts ''sortorder'' \<noteq> Some [''false'']"
  by (simp add: buildListQuery_deleted buildListQuery_sortorder)

text \<open>
  C3 as stated fails for the sort direction: with \<open>Asc\<close> set, the value sent is \<open>asc\<close>,
  and it is not the literal \<open>true\<close>.
\<close>

theorem sortorder_not_true_counterexample:
  "buildListQuery (noFilters\<lparr>Asc := True\<rparr>) ''sortorder'' = Some [''asc'']
   \<and> buildListQuery (noFilters\<lparr>Asc := True\<rparr>) ''sortorder'' \<noteq> Some [''true'']"
  by (simp add: buildListQuery_sortorder noFilters_def)

lemma ExportVenues_lookup:
  "req_query (ExportVenues opts e) k =
    (if PropertyIDs e \<noteq> [] \<and> k = ''export_properyids'' then Some [PropertyIDs e]
     else if k = ''format'' then Some [''excel'']
     else buildListQuery opts k)"
  by (simp add: ExportVenues_def Let_def set_if_apply Values_Set_apply)

lemma ExportLocations_lookup:
  "req_query (ExportLocations opts e) k =
    (if PropertyIDs e \<noteq> [] \<and> k = ''export_propertyids'' then Some [PropertyIDs e]
     else if k = ''format'' then Some [''excel'']
     else buildListQuery opts k)"
  by (simp add: ExportLocations_def Let_def set_if_apply Values_Set_apply)

lemma ExportEvents_lookup:
  "req_query (ExportEvents opts e) k =
     eventFilters opts
       (\<lambda>k. if PropertyIDs e \<noteq> [] \<and> k = ''export_propertyids'' then Some [PropertyIDs e]
            else if k = ''format'' then Some [if Format e = [] then ''excel'' else Format e]
            else buildListQuery opts k) k"
proof -
  have "set_if (PropertyIDs e \<noteq> []) ''export_propertyids'' (PropertyIDs e)
          (Values_Set (buildListQuery opts) ''format'' (if Format e = [] then ''excel'' else Format e))
        = (\<lambda>k. if PropertyIDs e \<noteq> [] \<and> k = ''export_propertyids'' then Some [PropertyIDs e]
            else if k = ''format'' then Some [if Format e = [] then ''excel'' else Format e]
            else buildListQuery opts k)"
    by (rule ext) (simp add: set_if_apply Values_Set_apply)
  then show ?thesis by (simp add: ExportEvents_def Let_def)
qed

lemma buildListQuery_no_property_key:
  "buildListQuery opts ''export_propertyids'' = None"
  "buildListQuery opts ''export_properyids'' = None"
  unfolding buildListQuery_lookup by simp_all

text \<open>
  C2. With a non-empty \<open>PropertyIDs\<close>, the venue export carries the value under the
  misspelt key \<open>export_properyids\<close> and has no key \<open>export_propertyids\<close>; the event
  export and the location export carry it under \<open>export_propertyids\<close> and have no key
  \<open>export_properyids\<close>.
\<close>

theorem export_property_key:
  assumes "PropertyIDs e \<noteq> ''''"
  shows "req_query (ExportVenues opts e) ''export_properyids'' = Some [PropertyIDs e]
       \<and> req_query (ExportVenues opts e) ''export_propertyids'' = None
       \<and> req_query (ExportEvents eopts e) ''export_propertyids'' = Some [PropertyIDs e]
       \<and> req_query (ExportEvents eopts e) ''export_properyids'' = None
       \<and> req_query (ExportLocations opts e) ''export_propertyids'' = Some [PropertyIDs e]
       \<and> req_query (ExportLocations opts e) ''export_properyids'' = None"
  using assms
  by (simp add: ExportVenues_lookup ExportLocations_lookup ExportEvents_lookup
      eventFilters_lookup buildListQuery_no_property_key)

theorem export_property_key_witness:
  "req_query (ExportVenues noFilters \<lparr>PropertyIDs = ''12345'', Format = ''''\<rparr>) ''export_properyids''
     = Some [''12345'']
   \<and> req_query (ExportEvents noEventFilters \<lparr>PropertyIDs = ''12345'', Format = ''''\<rparr>)
        ''export_propertyids'' = Some [''12345'']"
  using export_property_key [of "\<lparr>PropertyIDs = ''12345'', Format = ''''\<rparr>" noFilters noEventFilters]
  by simp

lemma buildListQuery_fields:
  "buildListQuery opts ''search'' = (if Search opts \<noteq> '''' then Some [Search opts] else None)"
  "buildListQuery opts ''markers'' = (if Markers opts \<noteq> '''' then Some [Markers opts] else None)"
  "buildListQuery opts ''keywords'' = (if Keywords opts \<noteq> '''' then Some [Keywords opts] else None)"
  "buildListQuery opts ''types'' = (if Types opts \<noteq> '''' then Some [Types opts] else None)"
  "buildListQuery opts ''categories'' = (if Categories opts \<noteq> '''' then Some [Categories opts] else None)"
  "buildListQuery opts ''wfstatus'' = (if WFStatus opts \<noteq> '''' then Some [WFStatus opts] else None)"
  "buildListQuery opts ''published'' = (if Published opts \<noteq> '''' then Some [Published opts] else None)"
  "buildListQuery opts ''owner'' = (if Owner opts \<noteq> '''' then Some [Owner opts] else None)"
  "buildListQuery opts ''userorganisation'' = (if UserOrg opts \<noteq> '''' then Some [UserOrg opts] else None)"
  "buildListQuery opts ''trcid'' = (if TRCID opts \<noteq> '''' then Some [TRCID opts] else None)"
  "buildListQuery opts ''externalid'' = (if ExternalID opts \<noteq> '''' then Some [ExternalID opts] else None)"
  "buildListQuery opts ''lang'' = (if Language opts \<noteq> '''' then Some [Language opts] else None)"
  "buildListQuery opts ''lastupdated'' = (if UpdatedSince opts \<noteq> '''' then Some [UpdatedSince opts] else None)"
  "buildListQuery opts ''sort'' = (if Sort opts \<noteq> '''' then Some [Sort opts] else None)"
  "buildListQuery opts ''size'' = (if 0 < Size opts then Some [Sprintf_d (Size opts)] else None)"
  "buildListQuery opts ''page'' = (if 0 < Page opts then Some [Sprintf_d (Page opts)] else None)"
  unfolding buildListQuery_lookup by simp_all

lemma buildListQuery_other:
  "k \<notin> {''search'', ''markers'', ''keywords'', ''types'', ''categories'', ''wfstatus'',
        ''published'', ''owner'', ''userorganisation'', ''trcid'', ''externalid'', ''lang'',
        ''lastupdated'', ''sort'', ''deleted'', ''sortorder'', ''size'', ''page''} \<Longrightarrow> buildListQuery opts k = None"
  unfolding buildListQuery_lookup by simp

lemma buildListQuery_keys:
  "buildListQuery opts k = Some vs \<Longrightarrow> k \<in> {''search'', ''markers'', ''keywords'', ''types'', ''categories'', ''wfstatus'',
        ''published'', ''owner'', ''userorganisation'', ''trcid'', ''externalid'', ''lang'',
        ''lastupdated'', ''sort'', ''deleted'', ''sortorder'', ''size'', ''page''}"
  by (rule ccontr) (simp add: buildListQuery_other)

lemma buildListQuery_values:
  assumes "buildListQuery opts k = Some vs"
  shows "\<exists>v. vs = [v] \<and> v \<noteq> ''''"
proof -
  from assms have "k \<in> {''search'', ''markers'', ''keywords'', ''types'', ''categories'', ''wfstatus'',
        ''published'', ''owner'', ''userorganisation'', ''trcid'', ''externalid'', ''lang'',
        ''lastupdated'', ''sort'', ''deleted'', ''sortorder'', ''size'', ''page''}" by (rule buildListQuery_keys)
  then show ?thesis
    using assms
    by (elim insertE emptyE)
       (clarsimp simp: buildListQuery_fields buildListQuery_deleted buildListQuery_sortorder
          Sprintf_d_not_Nil split: if_splits)+
qed

lemma buildListQuery_noFilters: "buildListQuery noFilters = Map.empty"
  by (rule ext) (simp add: buildListQuery_lookup noFilters_def)

text \<open>
  C7. Each text field contributes its parameter exactly when it is not empty, with the
  field as the value; \<open>Size\<close> and \<open>Page\<close> contribute exactly when they are strictly
  positive, and the two flags exactly when they are set; the query has no key besides the
  eighteen; no value is the empty string; and the query built from the empty options has
  no parameter.
\<close>

theorem buildListQuery_presence:
  "buildListQuery opts ''search'' = (if Search opts \<noteq> '''' then Some [Search opts] else None)
   \<and> buildListQuery opts ''markers'' = (if Markers opts \<noteq> '''' then Some [Markers opts] else None)
   \<and> buildListQuery opts ''keywords'' = (if Keywords opts \<noteq> '''' then Some [Keywords opts] else None)
   \<and> buildListQuery opts ''types'' = (if Types opts \<noteq> '''' then Some [Types opts] else None)
   \<and> buildListQuery opts ''categories'' = (if Categories opts \<noteq> '''' then Some [Categories opts] else None)
   \<and> buildListQuery opts ''wfstatus'' = (if WFStatus opts \<noteq> '''' then Some [WFStatus opts] else None)
   \<and> buildListQuery opts ''published'' = (if Published opts \<noteq> '''' then Some [Published opts] else None)
   \<and> buildListQuery opts ''owner'' = (if Owner opts \<noteq> '''' then Some [Owner opts] else None)
   \<and> buildListQuery opts ''userorganisation'' = (if UserOrg opts \<noteq> '''' then Some [UserOrg opts] else None)
   \<and> buildListQuery opts ''trcid'' = (if TRCID opts \<noteq> '''' then Some [TRCID opts] else None)
   \<and> buildListQuery opts ''externalid'' = (if ExternalID opts \<noteq> '''' then Some [ExternalID opts] else None)
   \<and> buildListQuery opts ''lang'' = (if Language opts \<noteq> '''' then Some [Language opts] else None)
   \<and> buildListQuery opts ''lastupdated'' = (if UpdatedSince opts \<noteq> '''' then Some [UpdatedSince opts] else None)
   \<and> buildListQuery opts ''sort'' = (if Sort opts \<noteq> '''' then Some [Sort opts] else None)
   \<and> buildListQuery opts ''size'' = (if 0 < Size opts then Some [Sprintf_d (Size opts)] else None)
   \<and> buildListQuery opts ''page'' = (if 0 < Page opts then Some [Sprintf_d (Page opts)] else None)
   \<and> buildListQuery opts ''deleted'' = (if Deleted opts then Some [''true''] else None)
   \<and> buildListQuery opts ''sortorder'' = (if Asc opts then Some [''asc''] else None)
   \<and> (\<forall>k vs. buildListQuery opts k = Some vs \<longrightarrow>
         k \<in> {''search'', ''markers'', ''keywords'', ''types'', ''categories'', ''wfstatus'',
        ''published'', ''owner'', ''userorganisation'', ''trcid'', ''externalid'', ''lang'',
        ''lastupdated'', ''sort'', ''deleted'', ''sortorder'', ''size'', ''page''}
         \<and> (\<exists>v. vs = [v] \<and> v \<noteq> ''''))
   \<and> buildListQuery noFilters = Map.empty"
  using buildListQuery_keys [of opts] buildListQuery_values [of opts]
  by (simp add: buildListQuery_fields buildListQuery_deleted buildListQuery_sortorder
      buildListQuery_noFilters)

theorem buildListQuery_presence_witness:
  "buildListQuery (noFilters\<lparr>Search := ''jazz'', Size := 25\<rparr>) ''search'' = Some [''jazz'']
   \<and> buildListQuery (noFilters\<lparr>Search := ''jazz'', Size := 25\<rparr>) ''size'' = Some [''25'']
   \<and> buildListQuery (noFilters\<lparr>Search := ''jazz'', Size := 25\<rparr>) ''page'' = None
   \<and> buildListQuery (noFilters\<lparr>Search := ''jazz'', Size := 25\<rparr>) ''published'' = None"
  using buildListQuery_presence [of "noFilters\<lparr>Search := ''jazz'', Size := 25\<rparr>"]
  by (simp add: noFilters_def Sprintf_d_def)

section \<open>Properties of the response shapes\<close>

lemma titleIn_find: "titleIn lang ds = map_option Title (firstWithTitle lang ds)"
  by (induction ds) (simp_all add: firstWithTitle_def)

text \<open>
  C8. \<open>GetTitle\<close> resolves the title as the specification words it: the first entry with
  a non-empty title in nl, else in en, else in de, else the title of the first entry, else
  the placeholder \<open>-\<close>; so it answers Bar, Baz and \<open>-\<close> on the three lists of the
  specification.
\<close>

theorem GetTitle_resolution:
  "GetTitle r = title_spec (TRCItemDetails r)
   \<and> GetTitle \<lparr>ID = i, TRCItemDetails =
         [\<lparr>Lang = ''en'', Title = ''Foo'', ShortDescription = '''', LongDescription = ''''\<rparr>,
          \<lparr>Lang = ''nl'', Title = ''Bar'', ShortDescription = '''', LongDescription = ''''\<rparr>]\<rparr>
       = ''Bar''
   \<and> GetTitle \<lparr>ID = i, TRCItemDetails =
         [\<lparr>Lang = ''de'', Title = ''Baz'', ShortDescription = '''', LongDescription = ''''\<rparr>]\<rparr>
       = ''Baz''
   \<and> GetTitle \<lparr>ID = i, TRCItemDetails = []\<rparr> = ''-''"
proof -
  have "GetTitle r = title_spec (TRCItemDetails r)"
  proof (cases "TRCItemDetails r")
    case Nil
    then show ?thesis by (simp add: GetTitle_def title_spec_def firstWithTitle_def)
  next
    case (Cons d ds)
    then show ?thesis
      by (auto simp: GetTitle_def title_spec_def titleIn_find split: option.splits)
  qed
  then show ?thesis by (simp add: GetTitle_def)
qed

lemma unmarshal_elems_strings: "unmarshal_elems (map JString xs) = Inr xs"
  by (induction xs) simp_all

lemma UnmarshalJSON_no_error: "snd (UnmarshalJSON v) = None"
  by (simp add: UnmarshalJSON_def split: sum.splits)

lemma Split_not_Nil: "Split s c \<noteq> []"
  by (induction s) (simp_all split: list.splits)

text \<open>
  The pieces of \<open>Split\<close> hold no separator, and the string is the pieces with one
  separator between neighbours: with a separator put before every piece, the separator
  followed by the string.
\<close>

lemma Split_pieces:
  "c \<notin> set (concat (Split s c))"
  "concat (map ((#) c) (Split s c)) = c # s"
proof (induction s)
  case Nil
  {
    case 1 show ?case by simp
  next
    case 2 show ?case by simp
  }
next
  case (Cons x xs)
  {
    case 1
    with Cons.IH(1) show ?case by (auto split: list.splits)
  next
    case 2
    with Cons.IH(2) Split_not_Nil [of xs c] show ?case by (auto split: list.splits)
  }
qed

text \<open>
  C9. An array of strings is kept as that sequence; a bare string is split at its commas,
  the empty string giving the empty sequence; \<open>null\<close> gives the empty sequence; and for
  every JSON value the error returned is nil. The three values of the specification give
  a, b, c twice and the empty sequence.
\<close>

theorem UnmarshalJSON_shapes:
  "UnmarshalJSON (JArray (map JString xs)) = (xs, None)
   \<and> UnmarshalJSON (JString s) = (if s = '''' then [] else Split s CHR '','', None)
   \<and> CHR '','' \<notin> set (concat (Split s CHR '',''))
   \<and> concat (map ((#) CHR '','') (Split s CHR '','')) = CHR '','' # s
   \<and> UnmarshalJSON JNull = ([], None)
   \<and> snd (UnmarshalJSON v) = None
   \<and> UnmarshalJSON (JString ''a,b,c'') = ([''a'', ''b'', ''c''], None)
   \<and> UnmarshalJSON (JArray [JString ''a'', JString ''b'', JString ''c'']) = ([''a'', ''b'', ''c''], None)"
  using Split_pieces [of "CHR '',''" s]
  by (simp add: UnmarshalJSON_def unmarshal_elems_strings UnmarshalJSON_no_error [unfolded UnmarshalJSON_def])

section \<open>Properties of the event commands\<close>

lemma ParseRelativeTime_error:
  "ParseRelativeTime beyond now s = Inl e \<Longrightarrow> e = InvalidTimeExpression s"
  by (auto simp: ParseRelativeTime_def parseAbsolute_def Let_def
      split: option.splits sum.splits if_splits)

lemma parseUpdatedSince_cases:
  "parseUpdatedSince beyond now v opts =
     (if flagParses beyond now v
      then Inr (if v = '''' then opts
                else opts\<lparr>UpdatedSince := Format_RFC3339 (projr (ParseRelativeTime beyond now v))\<rparr>)
      else Inl (Flag ''--updated-since'' (InvalidTimeExpression v)))"
  by (auto simp: parseUpdatedSince_def ParseRelativeISO_def flagParses_def
      dest: ParseRelativeTime_error split: sum.splits)

lemma parseDateFrom_cases:
  "parseDateFrom beyond now v opts =
     (if flagParses beyond now v
      then Inr (if v = '''' then opts
                else opts\<lparr>DateFrom := Format_date (projr (ParseRelativeTime beyond now v))\<rparr>)
      else Inl (Flag ''--date-from'' (InvalidTimeExpression v)))"
  by (auto simp: parseDateFrom_def ParseRelativeDate_def flagParses_def
      dest: ParseRelativeTime_error split: sum.splits)

lemma parseDateTo_cases:
  "parseDateTo beyond now v opts =
     (if flagParses beyond now v
      then Inr (if v = '''' then opts
                else opts\<lparr>DateTo := Format_date (projr (ParseRelativeTime beyond now v))\<rparr>)
      else Inl (Flag ''--date-to'' (InvalidTimeExpression v)))"
  by (auto simp: parseDateTo_def ParseRelativeDate_def flagParses_def
      dest: ParseRelativeTime_error split: sum.splits)

lemma andThen_simps:
  "andThen (Inl err) f = Inl err"
  "andThen (Inr v) f = f v"
  "andThen (if b then Inr v else Inl err) f = (if b then f v else Inl err)"
  by (simp_all add: andThen_def)

text \<open>
  C5. An event export in the format \<open>uitkrant\<close> with \<open>--date-from\<close> or \<open>--date-to\<close>
  missing returns the range error from \<open>Run\<close> before anything else is done: no request
  is issued.
\<close>

theorem uitkrant_requires_range:
  assumes "x_Format c = ''uitkrant''" and "x_DateFrom c = '''' \<or> x_DateTo c = ''''"
  shows "EventsExportCmd_Run TrimSpace beyond now1 now2 now3 c = Inl UitkrantRequiresRange"
  using assms by (simp add: EventsExportCmd_Run_def)

theorem uitkrant_requires_range_witness:
  "EventsExportCmd_Run (\<lambda>s. s) zeroTime epoch epoch epoch
     (noExportFlags\<lparr>x_Format := ''uitkrant'', x_DateFrom := ''2026-01-01''\<rparr>)
   = Inl UitkrantRequiresRange"
  using uitkrant_requires_range
    [of "noExportFlags\<lparr>x_Format := ''uitkrant'', x_DateFrom := ''2026-01-01''\<rparr>"
        "\<lambda>s. s" zeroTime epoch epoch epoch]
  by (simp add: noExportFlags_def)

lemma ListEvents_geo:
  "req_query (ListEvents opts) ''geo'' =
     (if GeoLat opts \<noteq> '''' \<and> GeoLon opts \<noteq> '''' then Some [GeoLat opts @ '','' @ GeoLon opts]
      else None)"
  by (simp add: ListEvents_def eventFilters_lookup buildListQuery_lookup)

lemma ExportEvents_geo:
  "req_query (ExportEvents opts e) ''geo'' =
     (if GeoLat opts \<noteq> '''' \<and> GeoLon opts \<noteq> '''' then Some [GeoLat opts @ '','' @ GeoLon opts]
      else None)"
  by (simp add: ExportEvents_lookup eventFilters_lookup buildListQuery_lookup)

lemma EventsListCmd_Run_no_geo:
  assumes "l_GeoDistance c \<noteq> ''''" and "l_Geo c = ''''"
  shows "EventsListCmd_Run TrimSpace beyond now1 now2 now3 c =
           Inl (case firstFlagError beyond now1 (l_UpdatedSince c) now2 (l_DateFrom c) now3 (l_DateTo c) of
                  Some err \<Rightarrow> err | None \<Rightarrow> GeoDistanceRequiresGeo)"
  using assms
  by (simp add: EventsListCmd_Run_def Let_def parseUpdatedSince_cases parseDateFrom_cases
      parseDateTo_cases andThen_simps parseGeo_def parseGeoDistance_def firstFlagError_def)

lemma EventsExportCmd_Run_no_geo:
  assumes "x_GeoDistance c \<noteq> ''''" and "x_Geo c = ''''"
  shows "EventsExportCmd_Run TrimSpace beyond now1 now2 now3 c =
           Inl (if x_Format c = ''uitkrant'' \<and> (x_DateFrom c = '''' \<or> x_DateTo c = '''')
                then UitkrantRequiresRange
                else case firstFlagError beyond now1 (x_UpdatedSince c) now2 (x_DateFrom c) now3 (x_DateTo c) of
                       Some err \<Rightarrow> err | None \<Rightarrow> GeoDistanceRequiresGeo)"
  using assms
  by (simp add: EventsExportCmd_Run_def Let_def parseUpdatedSince_cases parseDateFrom_cases
      parseDateTo_cases andThen_simps parseGeo_def parseGeoDistance_def firstFlagError_def)

text \<open>
  C4 (as the code has it). An event list or event export with \<open>--geo-distance\<close> given
  and the flag \<open>--geo\<close> not given always returns an error from \<open>Run\<close> before a request is
  issued. The error is that of the first check that fails: for the export the range check
  of the format \<open>uitkrant\<close>, then the flags \<open>--updated-since\<close>, \<open>--date-from\<close> and
  \<open>--date-to\<close> when one of them does not parse, and with all of these in order the error
  that \<open>--geo-distance\<close> requires \<open>--geo\<close>. The query of either request holds the one
  combined value \<open>lat,lon\<close> under \<open>geo\<close> exactly when latitude and longitude are both
  non-empty, and no \<open>geo\<close> otherwise. (What happens when \<open>--geo\<close> is given with an empty
  coordinate is not part of the statement; see \<open>geo_center_empty_coordinate\<close>.)
\<close>

theorem geo_distance_requires_geo:
  assumes "l_GeoDistance c \<noteq> ''''" and "l_Geo c = ''''"
    and "x_GeoDistance cx \<noteq> ''''" and "x_Geo cx = ''''"
  shows "EventsListCmd_Run TrimSpace beyond now1 now2 now3 c =
           Inl (case firstFlagError beyond now1 (l_UpdatedSince c) now2 (l_DateFrom c) now3 (l_DateTo c) of
                  Some err \<Rightarrow> err | None \<Rightarrow> GeoDistanceRequiresGeo)
       \<and> EventsExportCmd_Run TrimSpace beyond now1 now2 now3 cx =
           Inl (if x_Format cx = ''uitkrant'' \<and> (x_DateFrom cx = '''' \<or> x_DateTo cx = '''')
                then UitkrantRequiresRange
                else case firstFlagError beyond now1 (x_UpdatedSince cx) now2 (x_DateFrom cx) now3 (x_DateTo cx) of
                       Some err \<Rightarrow> err | None \<Rightarrow> GeoDistanceRequiresGeo)
       \<and> req_query (ListEvents opts) ''geo'' =
           (if GeoLat opts \<noteq> '''' \<and> GeoLon opts \<noteq> '''' then Some [GeoLat opts @ '','' @ GeoLon opts]
            else None)
       \<and> req_query (ExportEvents opts e) ''geo'' =
           (if GeoLat opts \<noteq> '''' \<and> GeoLon opts \<noteq> '''' then Some [GeoLat opts @ '','' @ GeoLon opts]
            else None)"
  using EventsListCmd_Run_no_geo [OF assms(1,2)] EventsExportCmd_Run_no_geo [OF assms(3,4)]
    ListEvents_geo [of opts] ExportEvents_geo [of opts e]
  by simp

text \<open>With no other flag given, the error is the one of the geo distance, for both commands.\<close>

theorem geo_distance_requires_geo_witness:
  "EventsListCmd_Run (\<lambda>s. s) zeroTime epoch epoch epoch (noListFlags\<lparr>l_GeoDistance := ''10km''\<rparr>)
     = Inl GeoDistanceRequiresGeo
   \<and> EventsExportCmd_Run (\<lambda>s. s) zeroTime epoch epoch epoch (noExportFlags\<lparr>x_GeoDistance := ''10km''\<rparr>)
     = Inl GeoDistanceRequiresGeo"
  using geo_distance_requires_geo
    [where c = "noListFlags\<lparr>l_GeoDistance := ''10km''\<rparr>"
       and cx = "noExportFlags\<lparr>x_GeoDistance := ''10km''\<rparr>"
       and TrimSpace = "\<lambda>s. s" and beyond = zeroTime and ?now1.0 = epoch and ?now2.0 = epoch and ?now3.0 = epoch
       and opts = noEventFilters and e = "\<lparr>PropertyIDs = '''', Format = ''''\<rparr>"]
  by (simp add: noListFlags_def noExportFlags_def firstFlagError_def flagParses_def)

text \<open>
  The check of the geo distance reads the flag \<open>--geo\<close>, not the coordinates cut from it.
  With \<open>--geo\<close> given and a coordinate empty, as in \<open>52.37,\<close>, the check passes and the
  request is issued with \<open>geodistance\<close> and without \<open>geo\<close>, against the help text of the
  flag (the distance requires the center) and the condition under which \<open>geo\<close> is sent.
\<close>

lemma geo_center_empty_coordinate:
  "map_sum id (\<lambda>r. (req_path r, req_query r ''geodistance'', req_query r ''geo''))
     (EventsListCmd_Run (\<lambda>s. s) zeroTime epoch epoch epoch
        (noListFlags\<lparr>l_Geo := ''52.37,'', l_GeoDistance := ''10km''\<rparr>))
   = Inr (''/events'', Some [''10km''], None)"
  by (simp add: EventsListCmd_Run_def noListFlags_def parseUpdatedSince_def parseDateFrom_def
      parseDateTo_def parseGeo_def parseGeoDistance_def andThen_def Let_def ListEvents_def
      eventFilters_lookup buildListQuery_lookup)

text \<open>
  C4 as stated fails in two ways. When an earlier check fails too, its error is the one
  returned: with \<open>--updated-since abc\<close> the command without \<open>--geo\<close> returns the error of
  the time expression, not the one of the geo distance. And with \<open>--geo\<close> given but a
  coordinate empty, there is no geo center and yet no error: the request is issued.
\<close>

theorem geo_distance_error_counterexample:
  "EventsListCmd_Run (\<lambda>s. s) zeroTime epoch epoch epoch
     (noListFlags\<lparr>l_UpdatedSince := ''abc'', l_GeoDistance := ''10km''\<rparr>)
   = Inl (Flag ''--updated-since'' (InvalidTimeExpression ''abc''))
   \<and> EventsListCmd_Run (\<lambda>s. s) zeroTime epoch epoch epoch
     (noListFlags\<lparr>l_UpdatedSince := ''abc'', l_GeoDistance := ''10km''\<rparr>)
   \<noteq> Inl GeoDistanceRequiresGeo
   \<and> map_sum id (\<lambda>r. (req_path r, req_query r ''geodistance'', req_query r ''geo''))
        (EventsListCmd_Run (\<lambda>s. s) zeroTime epoch epoch epoch
          (noListFlags\<lparr>l_Geo := ''52.37,'', l_GeoDistance := ''10km''\<rparr>))
     = Inr (''/events'', Some [''10km''], None)"
  using geo_center_empty_coordinate
  by (simp add: EventsListCmd_Run_def noListFlags_def parseUpdatedSince_def ParseRelativeISO_def
      ParseRelativeTime_def FindStringSubmatch_def isDigit_def parseAbsolute_def Parse_def
      andThen_def)

section \<open>Properties of the calendar\<close>






















lemma int64_id: "- (2 ^ 63) \<le> x \<Longrightarrow> x < 2 ^ 63 \<Longrightarrow> int64 x = x"
  by (simp add: int64_def mod_pos_pos_trivial)






section \<open>Properties of the digits and the two grammars\<close>

lemma of_char_int_nat: "(of_char c :: int) = int (of_char c :: nat)"
  by (simp add: of_nat_of_char)

lemma digitVal_range: "isDigit c \<Longrightarrow> 0 \<le> digitVal c \<and> digitVal c \<le> 9"
  by (simp add: isDigit_def digitVal_def of_char_int_nat)

lemma foldl_digits_nonneg:
  "list_all isDigit ds \<Longrightarrow> 0 \<le> a \<Longrightarrow> 0 \<le> foldl (\<lambda>n c. n * 10 + digitVal c) a ds"
proof (induction ds arbitrary: a)
  case Nil then show ?case by simp
next
  case (Cons c ds)
  then have "0 \<le> a * 10 + digitVal c" using digitVal_range [of c] by simp
  with Cons show ?case by simp
qed

lemma digitsVal_nonneg: "list_all isDigit ds \<Longrightarrow> 0 \<le> digitsVal ds"
  by (simp add: digitsVal_def foldl_digits_nonneg)

lemma Atoi_digits:
  assumes "ds \<noteq> []" "list_all isDigit ds"
  shows "Atoi ds = (if digitsVal ds \<ge> 2 ^ 63 then (2 ^ 63 - 1, Some ErrRange) else (digitsVal ds, None))"
proof -
  from assms have "isDigit (hd ds)" by (cases ds) simp_all
  then have "hd ds \<noteq> CHR ''-''" "hd ds \<noteq> CHR ''+''" by (auto simp: isDigit_def)
  then show ?thesis using assms by (simp add: Atoi_def Let_def)
qed

lemma unit_not_digit:
  "u \<in> {''d'', ''w'', ''mo'', ''y''} \<Longrightarrow> takeWhile isDigit u = [] \<and> dropWhile isDigit u = u"
  by (auto simp: isDigit_def)

lemma FindStringSubmatch_append:
  assumes "ds \<noteq> []" "list_all isDigit ds" "u \<in> {''d'', ''w'', ''mo'', ''y''}"
  shows "FindStringSubmatch (ds @ u) = Some (ds, u)"
proof -
  have all: "\<forall>c\<in>set ds. isDigit c" using assms(2) by (simp add: list_all_iff)
  have "takeWhile isDigit (ds @ u) = ds" "dropWhile isDigit (ds @ u) = u"
    using all unit_not_digit [OF assms(3)] by (simp_all add: takeWhile_append2 dropWhile_append2)
  then show ?thesis using assms by (auto simp: FindStringSubmatch_def Let_def)
qed

lemma FindStringSubmatch_Some:
  assumes "FindStringSubmatch s = Some (ds, u)"
  shows "s = ds @ u \<and> ds \<noteq> [] \<and> list_all isDigit ds \<and> u \<in> {''d'', ''w'', ''mo'', ''y''}"
proof -
  from assms have ds: "ds = takeWhile isDigit s" and u: "u = dropWhile isDigit s"
    and ne: "ds \<noteq> []" and un: "u \<in> {''d'', ''w'', ''mo'', ''y''}"
    by (auto simp: FindStringSubmatch_def Let_def split: if_splits)
  have "list_all isDigit ds" unfolding ds list_all_iff by (auto dest: set_takeWhileD)
  moreover have "s = ds @ u" unfolding ds u by simp
  ultimately show ?thesis using ne un by simp
qed

lemma relative_grammar_iff: "relative_grammar s \<longleftrightarrow> FindStringSubmatch s \<noteq> None"
proof
  assume "relative_grammar s"
  then obtain ds u where "s = ds @ u" "ds \<noteq> []" "list_all isDigit ds" "u \<in> {''d'', ''w'', ''mo'', ''y''}"
    unfolding relative_grammar_def by blast
  then show "FindStringSubmatch s \<noteq> None" using FindStringSubmatch_append by simp
next
  assume "FindStringSubmatch s \<noteq> None"
  then obtain ds u where "FindStringSubmatch s = Some (ds, u)" by auto
  from FindStringSubmatch_Some [OF this] show "relative_grammar s"
    unfolding relative_grammar_def by blast
qed

lemma length_ge_4:
  "4 \<le> length s \<Longrightarrow> \<exists>a b c d r. s = a # b # c # d # r"
  by (auto simp: numeral_eq_Suc Suc_le_length_iff)

lemma skip_hyphen: "skip v ''-'' = Some r \<longleftrightarrow> v = CHR ''-'' # r"
  by (cases v) (auto simp: skip_def)

lemma getnum_Some:
  "getnum v = Some (n, r) \<longleftrightarrow>
     (\<exists>a b. v = a # b # r \<and> isDigit a \<and> isDigit b \<and> n = digitVal a * 10 + digitVal b)"
  by (auto simp: getnum_def split: list.splits)

lemma digitsVal_2: "digitsVal [a, b] = digitVal a * 10 + digitVal b"
  by (simp add: digitsVal_def)

lemma Parse_Inr_iff:
  "Parse beyond s = Inr t \<longleftrightarrow>
     (\<exists>y1 y2 y3 y4 m1 m2 d1 d2.
        s = [y1, y2, y3, y4, CHR ''-'', m1, m2, CHR ''-'', d1, d2]
        \<and> list_all isDigit [y1, y2, y3, y4, m1, m2, d1, d2]
        \<and> valid_date (digitsVal [y1, y2, y3, y4], digitsVal [m1, m2], digitsVal [d1, d2])
        \<and> t = Date beyond (digitsVal [y1, y2, y3, y4]) (digitsVal [m1, m2]) (digitsVal [d1, d2]) 0 0 0 UTC)"
  (is "?L \<longleftrightarrow> ?R")
proof
  assume ?R
  then show ?L
    by (auto simp: Parse_def Let_def skip_def getnum_def digitsVal_2 valid_date_def)
next
  assume L: ?L
  then have len: "4 \<le> length s" by (auto simp: Parse_def split: if_splits)
  then obtain y1 y2 y3 y4 r where s: "s = y1 # y2 # y3 # y4 # r"
    using length_ge_4 by blast
  from L have dig: "list_all isDigit [y1, y2, y3, y4]"
    unfolding s by (auto simp: Parse_def Let_def split: if_splits)
  from L dig obtain r1 where r1: "skip r ''-'' = Some r1"
    unfolding s by (auto simp: Parse_def Let_def split: if_splits option.splits)
  from L dig r1 obtain mo r2 where g1: "getnum r1 = Some (mo, r2)"
    unfolding s by (auto simp: Parse_def Let_def split: if_splits option.splits)
  from L dig r1 g1 have mo: "1 \<le> mo" "mo \<le> 12"
    unfolding s by (auto simp: Parse_def Let_def split: if_splits option.splits)
  from L dig r1 g1 mo obtain r3 where r3: "skip r2 ''-'' = Some r3"
    unfolding s by (auto simp: Parse_def Let_def split: if_splits option.splits)
  from L dig r1 g1 mo r3 obtain dd r4 where g2: "getnum r3 = Some (dd, r4)"
    unfolding s by (auto simp: Parse_def Let_def split: if_splits option.splits)
  from L dig r1 g1 mo r3 g2 have fin: "r4 = []" "1 \<le> dd" "dd \<le> daysIn mo (digitsVal [y1, y2, y3, y4])"
    and t: "t = Date beyond (digitsVal [y1, y2, y3, y4]) mo dd 0 0 0 UTC"
    unfolding s by (auto simp: Parse_def Let_def split: if_splits option.splits)
  from r1 have e1: "r = CHR ''-'' # r1" by (simp add: skip_hyphen)
  from g1 obtain m1 m2 where e2: "r1 = m1 # m2 # r2" "isDigit m1" "isDigit m2"
    "mo = digitVal m1 * 10 + digitVal m2" by (auto simp: getnum_Some)
  from r3 have e3: "r2 = CHR ''-'' # r3" by (simp add: skip_hyphen)
  from g2 obtain d1 d2 where e4: "r3 = d1 # d2 # r4" "isDigit d1" "isDigit d2"
    "dd = digitVal d1 * 10 + digitVal d2" by (auto simp: getnum_Some)
  show ?R
    using dig mo fin t e2 e4 unfolding s e1 e2(1) e3 e4(1)
    by (simp add: digitsVal_2 valid_date_def)
qed

lemma absolute_date_iff: "absolute_date s \<longleftrightarrow> (\<exists>t. Parse beyond s = Inr t)"
  unfolding Parse_Inr_iff absolute_date_def by blast

section \<open>Properties of the parser\<close>

lemma ParseRelativeTime_units:
  assumes "ds \<noteq> []" "list_all isDigit ds"
  shows "ParseRelativeTime beyond now (ds @ ''d'') = Inr (AddDate beyond now 0 0 (int64 (- fst (Atoi ds))))"
    and "ParseRelativeTime beyond now (ds @ ''w'') = Inr (AddDate beyond now 0 0 (int64 (int64 (- fst (Atoi ds)) * 7)))"
    and "ParseRelativeTime beyond now (ds @ ''mo'') = Inr (AddDate beyond now 0 (int64 (- fst (Atoi ds))) 0)"
    and "ParseRelativeTime beyond now (ds @ ''y'') = Inr (AddDate beyond now (int64 (- fst (Atoi ds))) 0 0)"
  using assms by (simp_all add: ParseRelativeTime_def FindStringSubmatch_append Let_def)

lemma Atoi_saturated:
  assumes "ds \<noteq> []" "list_all isDigit ds"
  shows "fst (Atoi ds) = min (digitsVal ds) (2 ^ 63 - 1)"
    and "int64 (- fst (Atoi ds)) = - min (digitsVal ds) (2 ^ 63 - 1)"
proof -
  show 1: "fst (Atoi ds) = min (digitsVal ds) (2 ^ 63 - 1)"
    by (simp add: Atoi_digits [OF assms] min_def)
  have "0 \<le> min (digitsVal ds) (2 ^ 63 - 1)" using digitsVal_nonneg [OF assms(2)] by simp
  then show "int64 (- fst (Atoi ds)) = - min (digitsVal ds) (2 ^ 63 - 1)"
    unfolding 1 by (intro int64_id) simp_all
qed

text \<open>
  C10. A string of the relative grammar, one or more digits and one of the units d, w, mo
  and y, is always parsed to a time, never to an error. The error of \<open>Atoi\<close> is dropped:
  a count of \<open>2 ^ 63\<close> or more is replaced by the greatest \<open>int\<close>, and the time is computed
  from that.
\<close>

theorem relative_always_succeeds:
  assumes "ds \<noteq> []" and "list_all isDigit ds" and "u \<in> {''d'', ''w'', ''mo'', ''y''}"
  shows "relative_grammar (ds @ u)
       \<and> (\<exists>t. ParseRelativeTime beyond now (ds @ u) = Inr t)
       \<and> Atoi ds = (if 2 ^ 63 \<le> digitsVal ds then (2 ^ 63 - 1, Some ErrRange) else (digitsVal ds, None))
       \<and> ParseRelativeTime beyond now (ds @ ''d'') = Inr (AddDate beyond now 0 0 (- min (digitsVal ds) (2 ^ 63 - 1)))
       \<and> ParseRelativeTime beyond now (ds @ ''w'')
           = Inr (AddDate beyond now 0 0 (int64 (- min (digitsVal ds) (2 ^ 63 - 1) * 7)))
       \<and> ParseRelativeTime beyond now (ds @ ''mo'') = Inr (AddDate beyond now 0 (- min (digitsVal ds) (2 ^ 63 - 1)) 0)
       \<and> ParseRelativeTime beyond now (ds @ ''y'') = Inr (AddDate beyond now (- min (digitsVal ds) (2 ^ 63 - 1)) 0 0)"
proof -
  have g: "relative_grammar (ds @ u)" using assms unfolding relative_grammar_def by blast
  have e: "\<exists>t. ParseRelativeTime beyond now (ds @ u) = Inr t"
    using assms(3) ParseRelativeTime_units [OF assms(1,2), of beyond now] by auto
  show ?thesis
    using g e Atoi_digits [OF assms(1,2)] ParseRelativeTime_units [OF assms(1,2), of beyond now]
      Atoi_saturated(2) [OF assms(1,2)]
    by simp
qed

theorem relative_always_succeeds_witness:
  "ParseRelativeTime zeroTime march31 ''99999999999999999999d''
     = Inr (AddDate zeroTime march31 0 0 (- 9223372036854775807))
   \<and> Atoi ''99999999999999999999'' = (9223372036854775807, Some ErrRange)"
proof -
  have 1: "''99999999999999999999'' \<noteq> ''''" by simp
  have 2: "list_all isDigit ''99999999999999999999''" by code_simp
  have 3: "''d'' \<in> {''d'', ''w'', ''mo'', ''y''}" by simp
  have 4: "digitsVal ''99999999999999999999'' = 99999999999999999999" by code_simp
  show ?thesis
    using relative_always_succeeds [OF 1 2 3, of zeroTime march31] unfolding 4 by simp
qed

lemma ParseRelativeTime_Inl_iff:
  "ParseRelativeTime beyond now s = Inl e \<longleftrightarrow>
     e = InvalidTimeExpression s \<and> \<not> relative_grammar s \<and> \<not> absolute_date s"
proof (cases "FindStringSubmatch s")
  case None
  then show ?thesis
    by (auto simp: ParseRelativeTime_def parseAbsolute_def relative_grammar_iff
        absolute_date_iff [where beyond = beyond] split: sum.splits)
next
  case (Some p)
  obtain ds u where p: "p = (ds, u)" by (cases p)
  from FindStringSubmatch_Some [OF Some [unfolded p]]
  have s: "s = ds @ u" and ds: "ds \<noteq> []" "list_all isDigit ds" and u: "u \<in> {''d'', ''w'', ''mo'', ''y''}"
    by simp_all
  have "\<exists>t. ParseRelativeTime beyond now s = Inr t"
    unfolding s using u ParseRelativeTime_units [OF ds, of beyond now] by auto
  moreover have "relative_grammar s" using Some by (simp add: relative_grammar_iff)
  ultimately show ?thesis by auto
qed

text \<open>
  C6. \<open>ParseRelativeTime\<close> fails exactly on the strings that are neither of the relative
  grammar nor an absolute date \<open>YYYY-MM-DD\<close> (a date of the calendar: 2026-02-30 is none);
  its only error is the one of the invalid time expression, which carries the input, and
  whose message quotes the input and lists the accepted forms. It fails on abc and on 3x.
\<close>

theorem ParseRelativeTime_failure:
  "(ParseRelativeTime beyond now s = Inl (InvalidTimeExpression s))
      = (\<not> relative_grammar s \<and> \<not> absolute_date s)
   \<and> (\<forall>e. ParseRelativeTime beyond now s = Inl e \<longrightarrow> e = InvalidTimeExpression s)
   \<and> Error quote (InvalidTimeExpression s)
      = ''invalid time expression '' @ quote s @ '' (use e.g. 3d, 2w, 1mo, 1y, or 2026-01-15)''
   \<and> ParseRelativeTime beyond now ''abc'' = Inl (InvalidTimeExpression ''abc'')
   \<and> ParseRelativeTime beyond now ''3x'' = Inl (InvalidTimeExpression ''3x'')"
proof -
  have abc: "ParseRelativeTime beyond now ''abc'' = Inl (InvalidTimeExpression ''abc'')"
    by (simp add: ParseRelativeTime_def FindStringSubmatch_def isDigit_def parseAbsolute_def
        Parse_def)
  have x3: "ParseRelativeTime beyond now ''3x'' = Inl (InvalidTimeExpression ''3x'')"
    by (simp add: ParseRelativeTime_def FindStringSubmatch_def isDigit_def parseAbsolute_def
        Parse_def)
  show ?thesis using abc x3 by (simp add: ParseRelativeTime_Inl_iff)
qed

theorem ParseRelativeTime_failure_witness:
  "\<not> relative_grammar ''3x'' \<and> \<not> absolute_date ''3x''
   \<and> ParseRelativeTime zeroTime march31 ''3x'' = Inl (InvalidTimeExpression ''3x'')
   \<and> \<not> relative_grammar ''2026-02-30'' \<and> \<not> absolute_date ''2026-02-30''"
proof -
  have "case ParseRelativeTime zeroTime march31 ''2026-02-30'' of Inl e \<Rightarrow> True | Inr t \<Rightarrow> False"
    by code_simp
  then obtain e where "ParseRelativeTime zeroTime march31 ''2026-02-30'' = Inl e"
    by (auto split: sum.splits)
  then show ?thesis
    using ParseRelativeTime_failure [of zeroTime march31 "''3x''"]
      ParseRelativeTime_failure [of zeroTime march31 "''2026-02-30''"]
    by auto
qed

section \<open>Properties of the result of a relative expression\<close>










end
